theory Spec2Isabelle
  imports Main "HOL-Library.Word"
begin

unbundle bit_operations_syntax

section \<open>telesock: the per-connection SOCKS5 handler (internal/socks5.go, main.go)\<close>

text \<open>
  The handler talks to three parties: the client connection (read through a
  \<^verbatim>\<open>bufio.Reader\<close>, written directly), the dialer, and the destination connection.
  Each call the handler makes on them is recorded, in order, in the field \<open>io\<close> of the
  connection state, so that "what was written", "nothing further was read" and "closed
  once" are statements about that record of calls.
\<close>

subsection \<open>Data\<close>

type_synonym byte = "8 word"

text \<open>One entry of \<^verbatim>\<open>Config.Users\<close>; a Go string is its bytes.\<close>

record user =
  Username :: "byte list"
  Password :: "byte list"

record Config =
  Users :: "user list"

text \<open>\<^verbatim>\<open>net.TCPAddr\<close>: \<open>IP\<close> is a byte slice (4 or 16 bytes), \<open>Port\<close> an \<^verbatim>\<open>int\<close>.\<close>

record TCPAddr =
  IP :: "byte list"
  Port :: int

text \<open>
  The destination connection \<^verbatim>\<open>*net.TCPConn\<close> returned by \<^verbatim>\<open>net.DialTCP\<close>; the handler
  only asks it for its local address.
\<close>

datatype srvconn = SrvConn (LocalAddr: TCPAddr)

datatype direction = ClientToServer | ServerToClient

text \<open>
  The calls of the handler:
  \<^item> \<open>ClientRead n bs\<close>: a read of \<open>n\<close> bytes from the client reader that obtained \<open>bs\<close>
    (an error when \<open>length bs < n\<close>);
  \<^item> \<open>ClientWrite b k\<close>: \<^verbatim>\<open>Write(b)\<close> on the client connection, which accepted \<open>k\<close> bytes
    (an error when \<open>k < length b\<close>);
  \<^item> \<open>Compare x y\<close>: a call \<^verbatim>\<open>subtle.ConstantTimeCompare(x, y)\<close>;
  \<^item> \<open>Dial raddr r\<close>: \<^verbatim>\<open>net.DialTCP("tcp4", nil, raddr)\<close> and its result;
  \<^item> \<open>RunCalled\<close>: \<^verbatim>\<open>Run\<close> was entered; \<open>CopyEnd d\<close>: the \<^verbatim>\<open>io.Copy\<close> of direction
    \<open>d\<close> returned;
  \<^item> \<open>ServerClose\<close>, \<open>ClientClose\<close>: the two \<^verbatim>\<open>Close\<close> calls of \<^verbatim>\<open>TCPConn.Close\<close>.
\<close>

datatype event =
    ClientRead nat "byte list"
  | ClientWrite "byte list" nat
  | Compare "byte list" "byte list"
  | Dial TCPAddr "srvconn option"
  | RunCalled
  | CopyEnd direction
  | ServerClose
  | ClientClose

text \<open>
  \<^verbatim>\<open>TCPConn\<close>. \<open>clientR\<close> is the sequence of bytes the client reader still yields before
  its stream ends (end-of-file or a read error: the handler treats both alike).
  \<open>clientW\<close> is how many more bytes the client connection accepts before a \<^verbatim>\<open>Write\<close>
  fails (\<open>None\<close>: it never fails). \<open>server\<close> is \<open>None\<close> for Go's \<^verbatim>\<open>nil\<close>. The logger
  is left out. Every read returns: a client that stays silent without closing, so that
  a read blocks for ever, is outside this model.
\<close>

record TCPConn =
  conf :: Config
  clientR :: "byte list"
  clientW :: "nat option"
  server :: "srvconn option"
  io :: "event list"

record req =
  Ver :: byte
  Cmd :: byte
  Rsv :: byte
  Atyp :: byte

record ipv4Addr =
  Addr :: "byte list"
  Port :: "16 word"

record res =
  Ver :: byte
  Rep :: byte
  Rsv :: byte
  Atyp :: byte

subsection \<open>The calls on the client connection\<close>

definition emit :: "event \<Rightarrow> TCPConn \<Rightarrow> TCPConn" where
  "emit e tcp = tcp\<lparr>io := io tcp @ [e]\<rparr>"

text \<open>\<^verbatim>\<open>tcp.clientR.ReadByte()\<close>: \<open>None\<close> is a non-nil error.\<close>

definition ReadByte :: "TCPConn \<Rightarrow> byte option \<times> TCPConn" where
  "ReadByte tcp =
     (case clientR tcp of
        [] \<Rightarrow> (None, emit (ClientRead 1 []) tcp)
      | b # bs \<Rightarrow> (Some b, emit (ClientRead 1 [b]) (tcp\<lparr>clientR := bs\<rparr>)))"

text \<open>
  \<^verbatim>\<open>io.ReadFull(tcp.clientR, buf)\<close> with \<open>n = len(buf)\<close>. For \<open>n = 0\<close> it returns at
  once without calling the reader; otherwise it reads until \<open>n\<close> bytes are there or the
  stream ends, which is an error.
\<close>

definition ReadFull :: "nat \<Rightarrow> TCPConn \<Rightarrow> byte list option \<times> TCPConn" where
  "ReadFull n tcp =
     (if n = 0 then (Some [], tcp)
      else if n \<le> length (clientR tcp)
      then (Some (take n (clientR tcp)),
            emit (ClientRead n (take n (clientR tcp))) (tcp\<lparr>clientR := drop n (clientR tcp)\<rparr>))
      else (None, emit (ClientRead n (clientR tcp)) (tcp\<lparr>clientR := []\<rparr>)))"

text \<open>
  \<^verbatim>\<open>tcp.clientW.Write(b)\<close>: the result is \<open>True\<close> when the error is nil. A failing
  write may have delivered a prefix of the buffer.
\<close>

definition Write :: "byte list \<Rightarrow> TCPConn \<Rightarrow> bool \<times> TCPConn" where
  "Write b tcp =
     (case clientW tcp of
        None \<Rightarrow> (True, emit (ClientWrite b (length b)) tcp)
      | Some k \<Rightarrow>
          if length b \<le> k
          then (True, emit (ClientWrite b (length b)) (tcp\<lparr>clientW := Some (k - length b)\<rparr>))
          else (False, emit (ClientWrite b k) (tcp\<lparr>clientW := Some 0\<rparr>)))"

text \<open>The bytes that reached the client, read off the record of calls.\<close>

fun sent :: "event list \<Rightarrow> byte list" where
  "sent [] = []"
| "sent (ClientWrite b k # es) = take k b @ sent es"
| "sent (e # es) = sent es"


subsection \<open>crypto/subtle\<close>

text \<open>
  Go's \<^verbatim>\<open>subtle.ConstantTimeByteEq(x, y) = int((uint32(x^y) - 1) >> 31)\<close> and
  \<^verbatim>\<open>subtle.ConstantTimeCompare\<close>: unequal lengths give 0 at once, otherwise the
  bytewise differences are OR-ed together over the whole length and compared to 0.
\<close>

definition ConstantTimeByteEq :: "byte \<Rightarrow> byte \<Rightarrow> int" where
  "ConstantTimeByteEq x y = uint (drop_bit 31 ((ucast (x XOR y) :: 32 word) - 1))"

definition ConstantTimeCompare :: "byte list \<Rightarrow> byte list \<Rightarrow> int" where
  "ConstantTimeCompare x y =
     (if length x \<noteq> length y then 0
      else ConstantTimeByteEq (foldl (\<lambda>v (a, b). v OR (a XOR b)) 0 (zip x y)) 0)"

subsection \<open>NewTCPConn and Close\<close>

definition NewTCPConn :: "byte list \<Rightarrow> nat option \<Rightarrow> Config \<Rightarrow> TCPConn" where
  "NewTCPConn input wcap c =
     \<lparr>conf = c, clientR = input, clientW = wcap, server = None, io = []\<rparr>"

definition Close :: "TCPConn \<Rightarrow> TCPConn" where
  "Close tcp =
     (let tcp1 = (if server tcp \<noteq> None then emit ServerClose tcp else tcp)
      in emit ClientClose tcp1)"

subsection \<open>Auth\<close>

text \<open>The method loop of \<^verbatim>\<open>Auth\<close> (lines 88-94): 255 unless some offered method is 2.\<close>

fun select_method :: "byte list \<Rightarrow> byte" where
  "select_method [] = 255"
| "select_method (m # ms) = (if m = 2 then m else select_method ms)"

text \<open>
  The credential loop of \<^verbatim>\<open>Auth\<close> (lines 146-153). The body has no \<^verbatim>\<open>break\<close>: it runs
  for every entry of \<^verbatim>\<open>conf.Users\<close>, calls \<^verbatim>\<open>ConstantTimeCompare\<close> twice and only ever
  sets \<^verbatim>\<open>userFound\<close> to true.
\<close>

definition check_user :: "byte list \<Rightarrow> byte list \<Rightarrow> bool \<times> TCPConn \<Rightarrow> user \<Rightarrow> bool \<times> TCPConn" where
  "check_user username password st u =
     (let userFound = fst st;
          tcp = emit (Compare username (Username u)) (snd st);
          usernameOk = (ConstantTimeCompare username (Username u) = 1);
          tcp = emit (Compare password (Password u)) tcp;
          passwordOk = (ConstantTimeCompare password (Password u) = 1)
      in (if usernameOk \<and> passwordOk then True else userFound, tcp))"

definition scan_users :: "byte list \<Rightarrow> byte list \<Rightarrow> TCPConn \<Rightarrow> bool \<times> TCPConn" where
  "scan_users username password tcp =
     foldl (check_user username password) (False, tcp) (Users (conf tcp))"

text \<open>Lines 146-170: the scan, the status reply and the result.\<close>

definition Auth_verify :: "byte list \<Rightarrow> byte list \<Rightarrow> TCPConn \<Rightarrow> bool \<times> TCPConn" where
  "Auth_verify username password tcp0 =
     (case scan_users username password tcp0 of (userFound, tcp) \<Rightarrow>
     (let b = [1, if \<not> userFound then 1 else 0] in
     (case Write b tcp of
        (False, tcp) \<Rightarrow> (False, tcp)
      | (True, tcp) \<Rightarrow> (if b ! 1 = 0 then (True, tcp) else (False, tcp)))))"

text \<open>Lines 106-144: reading the username/password sub-negotiation.\<close>

definition Auth_subneg :: "TCPConn \<Rightarrow> bool \<times> TCPConn" where
  "Auth_subneg tcp0 =
     (case ReadByte tcp0 of
        (None, tcp) \<Rightarrow> (False, tcp)
      | (Some ver, tcp) \<Rightarrow>
     (if ver \<noteq> 1 then (False, tcp) else
     (case ReadByte tcp of
        (None, tcp) \<Rightarrow> (False, tcp)
      | (Some len, tcp) \<Rightarrow>
     (if len = 0 then (False, tcp) else
     (case ReadFull (unat len) tcp of
        (None, tcp) \<Rightarrow> (False, tcp)
      | (Some username, tcp) \<Rightarrow>
     (case ReadByte tcp of
        (None, tcp) \<Rightarrow> (False, tcp)
      | (Some len, tcp) \<Rightarrow>
     (if len = 0 then (False, tcp) else
     (case ReadFull (unat len) tcp of
        (None, tcp) \<Rightarrow> (False, tcp)
      | (Some password, tcp) \<Rightarrow>
     Auth_verify username password tcp))))))))"

text \<open>\<^verbatim>\<open>Auth\<close>: lines 68-104 (the greeting), then the sub-negotiation.\<close>

definition Auth :: "TCPConn \<Rightarrow> bool \<times> TCPConn" where
  "Auth tcp0 =
     (case ReadByte tcp0 of
        (None, tcp) \<Rightarrow> (False, tcp)
      | (Some ver, tcp) \<Rightarrow>
     (if ver \<noteq> 5 then (False, tcp) else
     (case ReadByte tcp of
        (None, tcp) \<Rightarrow> (False, tcp)
      | (Some nmethod, tcp) \<Rightarrow>
     (case ReadFull (unat nmethod) tcp of
        (None, tcp) \<Rightarrow> (False, tcp)
      | (Some methods, tcp) \<Rightarrow>
     (let method = select_method methods in
     (case Write [5, method] tcp of
        (False, tcp) \<Rightarrow> (False, tcp)
      | (True, tcp) \<Rightarrow>
     (if method = 255 then (False, tcp) else
     Auth_subneg tcp)))))))"

subsection \<open>Req\<close>

text \<open>
  \<^verbatim>\<open>encoding/binary\<close> with \<^verbatim>\<open>binary.BigEndian\<close>: a \<^verbatim>\<open>uint16\<close> is two bytes, the high
  one first.
\<close>

definition Uint16 :: "byte \<Rightarrow> byte \<Rightarrow> 16 word" where
  "Uint16 b0 b1 = ucast b1 OR push_bit 8 (ucast b0)"

definition PutUint16 :: "16 word \<Rightarrow> byte list" where
  "PutUint16 v = [ucast (drop_bit 8 v), ucast v]"

text \<open>
  \<^verbatim>\<open>binary.Read(tcp.clientR, binary.BigEndian, &x)\<close> is \<^verbatim>\<open>io.ReadFull\<close> of the size of
  \<open>x\<close> (4 bytes for \<^verbatim>\<open>req\<close>, 6 for \<^verbatim>\<open>ipv4Addr\<close>) followed by decoding;
  \<^verbatim>\<open>binary.Write\<close> encodes and makes one \<^verbatim>\<open>Write\<close> call.
\<close>

definition read_req :: "TCPConn \<Rightarrow> req option \<times> TCPConn" where
  "read_req tcp0 =
     (case ReadFull 4 tcp0 of
        (None, tcp) \<Rightarrow> (None, tcp)
      | (Some bs, tcp) \<Rightarrow>
          (Some \<lparr>req.Ver = bs ! 0, Cmd = bs ! 1, req.Rsv = bs ! 2, req.Atyp = bs ! 3\<rparr>, tcp))"

definition read_ipv4Addr :: "TCPConn \<Rightarrow> ipv4Addr option \<times> TCPConn" where
  "read_ipv4Addr tcp0 =
     (case ReadFull 6 tcp0 of
        (None, tcp) \<Rightarrow> (None, tcp)
      | (Some bs, tcp) \<Rightarrow>
          (Some \<lparr>Addr = take 4 bs, ipv4Addr.Port = Uint16 (bs ! 4) (bs ! 5)\<rparr>, tcp))"

definition write_res :: "res \<Rightarrow> TCPConn \<Rightarrow> bool \<times> TCPConn" where
  "write_res r tcp = Write [res.Ver r, Rep r, res.Rsv r, res.Atyp r] tcp"

definition write_ipv4Addr :: "ipv4Addr \<Rightarrow> TCPConn \<Rightarrow> bool \<times> TCPConn" where
  "write_ipv4Addr a tcp = Write (Addr a @ PutUint16 (ipv4Addr.Port a)) tcp"

text \<open>
  \<^verbatim>\<open>net.IP.To4\<close>: a 4-byte address is itself, a 16-byte IPv4-mapped address gives its last
  4 bytes, anything else gives nil (the empty slice here).
\<close>

definition To4 :: "byte list \<Rightarrow> byte list" where
  "To4 ip =
     (if length ip = 4 then ip
      else if length ip = 16 \<and> take 10 ip = replicate 10 0 \<and> ip ! 10 = 255 \<and> ip ! 11 = 255
      then drop 12 ip
      else [])"

text \<open>Go's builtin \<^verbatim>\<open>copy(dst, src)\<close>: the first \<open>min (len dst) (len src)\<close> elements.\<close>

definition copy :: "'a list \<Rightarrow> 'a list \<Rightarrow> 'a list" where
  "copy dst src = take (length dst) src @ drop (length src) dst"

text \<open>
  \<^verbatim>\<open>Req\<close>. The dialer is a parameter: \<open>DialTCP raddr\<close> is \<open>None\<close> when
  \<^verbatim>\<open>net.DialTCP\<close> returns an error and the new connection otherwise.
\<close>

definition Req :: "(TCPAddr \<Rightarrow> srvconn option) \<Rightarrow> TCPConn \<Rightarrow> bool \<times> TCPConn" where
  "Req DialTCP tcp0 =
     (case read_req tcp0 of
        (None, tcp) \<Rightarrow> (False, tcp)
      | (Some rq, tcp) \<Rightarrow>
     (if req.Ver rq \<noteq> 5 then (False, tcp) else
     (if Cmd rq \<noteq> 1 then (False, tcp) else
     (if req.Rsv rq \<noteq> 0 then (False, tcp) else
     (if req.Atyp rq \<noteq> 1 then (False, tcp) else
     (case read_ipv4Addr tcp of
        (None, tcp) \<Rightarrow> (False, tcp)
      | (Some ipv4AddrReq, tcp) \<Rightarrow>
     (let rs = \<lparr>res.Ver = 5, Rep = 0, res.Rsv = 0, res.Atyp = 1\<rparr>;
          raddr = \<lparr>IP = Addr ipv4AddrReq, TCPAddr.Port = uint (ipv4Addr.Port ipv4AddrReq)\<rparr>;
          tcp = emit (Dial raddr (DialTCP raddr)) tcp in
     (case DialTCP raddr of
        None \<Rightarrow> (False, snd (write_res (rs\<lparr>Rep := 1\<rparr>) tcp))
      | Some srv \<Rightarrow>
     (case write_res rs tcp of
        (False, tcp) \<Rightarrow> (False, tcp)
      | (True, tcp) \<Rightarrow>
     (let tcp = tcp\<lparr>server := Some srv\<rparr>;
          laddr = LocalAddr srv;
          ipv4AddrRes = \<lparr>Addr = copy [0, 0, 0, 0] (To4 (IP laddr)),
                         ipv4Addr.Port = word_of_int (TCPAddr.Port laddr)\<rparr> in
     (case write_ipv4Addr ipv4AddrRes tcp of
        (False, tcp) \<Rightarrow> (False, tcp)
      | (True, tcp) \<Rightarrow> (True, tcp))))))))))))"

subsection \<open>Run and runTCPConn\<close>

text \<open>
  \<^verbatim>\<open>Run\<close> starts a goroutine copying client to server and itself copies server to
  client; it returns when its own copy returns. Which copy ends, and in which order, is up
  to the two peers: \<open>ds\<close> lists the directions in the order in which their source ends
  (end-of-stream or error). The flag \<open>g\<close> says that the goroutine is still copying.
  The first component of the result is \<open>False\<close> when \<^verbatim>\<open>Run\<close> has not returned (the
  server-to-client copy has not ended); the second says whether the goroutine is still
  copying at that point. The relayed bytes themselves are not modelled.
\<close>

fun relay :: "direction list \<Rightarrow> bool \<Rightarrow> TCPConn \<Rightarrow> bool \<times> bool \<times> TCPConn" where
  "relay [] g tcp = (False, g, tcp)"
| "relay (ServerToClient # ds) g tcp = (True, g, emit (CopyEnd ServerToClient) tcp)"
| "relay (ClientToServer # ds) g tcp =
     relay ds False (if g then emit (CopyEnd ClientToServer) tcp else tcp)"

definition Run :: "direction list \<Rightarrow> TCPConn \<Rightarrow> bool \<times> bool \<times> TCPConn" where
  "Run ds tcp = relay ds True (emit RunCalled tcp)"

text \<open>
  What \<^verbatim>\<open>Close\<close> does to a goroutine that is still copying: \<^verbatim>\<open>tcp.server\<close> and the
  client connection, which \<^verbatim>\<open>clientR\<close> reads, are closed now, so its pending read or its
  next write fails and its \<^verbatim>\<open>io.Copy\<close> returns.
\<close>

definition goroutine_end :: "bool \<Rightarrow> TCPConn \<Rightarrow> TCPConn" where
  "goroutine_end g tcp = (if g then emit (CopyEnd ClientToServer) tcp else tcp)"

text \<open>
  \<^verbatim>\<open>runTCPConn\<close> of main.go. The deferred \<^verbatim>\<open>tcp.Close()\<close> runs when the function
  returns, so not while \<^verbatim>\<open>Run\<close> is still blocked; after the relay it is followed by the
  end of the goroutine.
\<close>

definition runTCPConn ::
  "byte list \<Rightarrow> nat option \<Rightarrow> Config \<Rightarrow> (TCPAddr \<Rightarrow> srvconn option) \<Rightarrow> direction list \<Rightarrow> TCPConn" where
  "runTCPConn input wcap c DialTCP ds =
     (let tcp = NewTCPConn input wcap c in
     (case Auth tcp of
        (False, tcp) \<Rightarrow> Close tcp
      | (True, tcp) \<Rightarrow>
     (case Req DialTCP tcp of
        (False, tcp) \<Rightarrow> Close tcp
      | (True, tcp) \<Rightarrow>
     (case Run ds tcp of
        (False, g, tcp) \<Rightarrow> tcp
      | (True, g, tcp) \<Rightarrow> goroutine_end g (Close tcp)))))"

subsection \<open>Notions used to state the properties\<close>

text \<open>
  How many bytes of an \<open>n\<close>-byte buffer the client connection takes when its remaining
  capacity is \<open>w\<close>; the \<^verbatim>\<open>Write\<close> succeeds exactly when that is \<open>n\<close>.
\<close>

definition accepted :: "nat option \<Rightarrow> nat \<Rightarrow> nat" where
  "accepted w n = (case w of None \<Rightarrow> n | Some k \<Rightarrow> min k n)"

text \<open>The comparisons of a full scan: two per configured credential, in order.\<close>

definition compares :: "byte list \<Rightarrow> byte list \<Rightarrow> user list \<Rightarrow> event list" where
  "compares username password us =
     concat (map (\<lambda>u. [Compare username (Username u), Compare password (Password u)]) us)"

text \<open>The read of the offered methods; none takes place for an empty list.\<close>

definition methods_read :: "byte list \<Rightarrow> event list" where
  "methods_read methods = (if methods = [] then [] else [ClientRead (length methods) methods])"

text \<open>The calls that \<^verbatim>\<open>Auth\<close> and \<^verbatim>\<open>Req\<close> can make.\<close>

fun handshake_event :: "event \<Rightarrow> bool" where
  "handshake_event RunCalled = False"
| "handshake_event (CopyEnd d) = False"
| "handshake_event ServerClose = False"
| "handshake_event ClientClose = False"
| "handshake_event e = True"

text \<open>The calls that are not handshake calls, in order.\<close>

definition other_events :: "event list \<Rightarrow> event list" where
  "other_events es = filter (\<lambda>e. \<not> handshake_event e) es"

subsection \<open>A concrete setting for the examples\<close>

text \<open>
  One configured credential \<^verbatim>\<open>user\<close>/\<^verbatim>\<open>pass\<close>, a dialer that always fails and one that
  always connects from the local address 10.0.0.1:40000.
\<close>

definition example_conf :: Config where
  "example_conf =
     \<lparr>Users = [\<lparr>Username = [117, 115, 101, 114], Password = [112, 97, 115, 115]\<rparr>]\<rparr>"

definition dial_refused :: "TCPAddr \<Rightarrow> srvconn option" where
  "dial_refused raddr = None"

definition dial_ok :: "TCPAddr \<Rightarrow> srvconn option" where
  "dial_ok raddr = Some (SrvConn \<lparr>IP = [10, 0, 0, 1], TCPAddr.Port = 40000\<rparr>)"

text \<open>
  The bytes of a greeting offering method 2 followed by the sub-negotiation for
  \<^verbatim>\<open>user\<close>/\<^verbatim>\<open>pass\<close>, a CONNECT request to 127.0.0.1:80, and the calls of \<^verbatim>\<open>Auth\<close> on
  these handshake bytes.
\<close>

definition example_handshake :: "byte list" where
  "example_handshake = [5, 1, 2, 1, 4, 117, 115, 101, 114, 4, 112, 97, 115, 115]"

definition example_request :: "byte list" where
  "example_request = [5, 1, 0, 1, 127, 0, 0, 1, 0, 80]"

definition example_auth_io :: "event list" where
  "example_auth_io =
     [ClientRead 1 [5], ClientRead 1 [1], ClientRead 1 [2], ClientWrite [5, 2] 2,
      ClientRead 1 [1], ClientRead 1 [4], ClientRead 4 [117, 115, 101, 114],
      ClientRead 1 [4], ClientRead 4 [112, 97, 115, 115],
      Compare [117, 115, 101, 114] [117, 115, 101, 114],
      Compare [112, 97, 115, 115] [112, 97, 115, 115],
      ClientWrite [1, 0] 2]"

text \<open>The calls of \<^verbatim>\<open>Req\<close> on that request when the dialer connects.\<close>

definition example_req_io :: "event list" where
  "example_req_io =
     [ClientRead 4 [5, 1, 0, 1], ClientRead 6 [127, 0, 0, 1, 0, 80],
      Dial \<lparr>IP = [127, 0, 0, 1], TCPAddr.Port = 80\<rparr>
        (Some (SrvConn \<lparr>IP = [10, 0, 0, 1], TCPAddr.Port = 40000\<rparr>)),
      ClientWrite [5, 0, 0, 1] 4, ClientWrite [10, 0, 0, 1, 156, 64] 6]"

section \<open>Properties\<close>

subsection \<open>Constant-time comparison\<close>

lemma ucast_byte_unat: "unat (ucast (v::8 word) :: 32 word) = unat v"
proof -
  have "unat v < 2 ^ 8" using unsigned_less[of v, where 'a=nat] by simp
  then have "unat v < 2 ^ 32" by simp
  then show ?thesis by (simp add: unsigned_ucast_eq take_bit_nat_eq_self)
qed

lemma drop_bit_31_small: 
  assumes lt: "unat (w :: 32 word) < 2 ^ 31" shows "drop_bit 31 w = 0"
proof -
  have "unat (drop_bit 31 w) = drop_bit 31 (unat w)" by (rule unat_drop_bit_eq)
  also have "\<dots> = unat w div 2 ^ 31" by (rule drop_bit_eq_div)
  also have "\<dots> = 0" using lt by simp
  finally show ?thesis by (simp only: unat_0_iff)
qed

lemma ConstantTimeByteEq_zero: "ConstantTimeByteEq v 0 = (if v = 0 then 1 else 0)"
proof (cases "v = 0")
  case True
  then show ?thesis by (simp add: ConstantTimeByteEq_def)
next
  case False
  have nz: "(ucast v :: 32 word) \<noteq> 0"
    using False ucast_byte_unat[of v] by (metis unat_0_iff)
  have "unat v < 2 ^ 8" using unsigned_less[of v, where 'a=nat] by simp
  then have "unat ((ucast v :: 32 word) - 1) < 2 ^ 31"
    using unat_minus_one[OF nz] ucast_byte_unat[of v] by simp
  then have "drop_bit 31 ((ucast v :: 32 word) - 1) = 0" by (rule drop_bit_31_small)
  with False show ?thesis by (simp add: ConstantTimeByteEq_def)
qed

lemma xor_zero: "(a XOR b = (0::byte)) = (a = b)"
proof
  assume h: "a XOR b = 0"
  have "b = (a XOR a) XOR b" by simp
  also have "\<dots> = a XOR (a XOR b)" by (simp only: xor.assoc)
  also have "\<dots> = a" using h by simp
  finally show "a = b" by simp
qed simp

lemma foldl_or_zero:
  "length x = length y \<Longrightarrow>
   (foldl (\<lambda>v (a, b). v OR (a XOR b)) (v0::byte) (zip x y) = 0) = (v0 = 0 \<and> x = y)"
proof (induction x y arbitrary: v0 rule: list_induct2)
  case Nil
  then show ?case by simp
next
  case (Cons a x b y)
  then show ?case by (auto simp: or_eq_0_iff xor_zero)
qed

lemma ConstantTimeCompare_eq: "(ConstantTimeCompare x y = 1) = (x = y)"
proof (cases "length x = length y")
  case True
  then show ?thesis
    by (simp add: ConstantTimeCompare_def ConstantTimeByteEq_zero foldl_or_zero)
next
  case False
  then show ?thesis by (auto simp: ConstantTimeCompare_def)
qed

lemma check_user_eq:
  "check_user username password (f, tcp) u =
     (f \<or> (Username u = username \<and> Password u = password),
      tcp\<lparr>io := io tcp @ [Compare username (Username u), Compare password (Password u)]\<rparr>)"
  by (auto simp: check_user_def emit_def ConstantTimeCompare_eq Let_def)

lemma foldl_check_user:
  "foldl (check_user username password) (f, tcp) us =
     (f \<or> list_ex (\<lambda>u. Username u = username \<and> Password u = password) us,
      tcp\<lparr>io := io tcp @ compares username password us\<rparr>)"
proof (induction us arbitrary: f tcp)
  case Nil
  then show ?case by (simp add: compares_def)
next
  case (Cons u us)
  have "foldl (check_user username password) (f, tcp) (u # us) =
        foldl (check_user username password) (check_user username password (f, tcp) u) us"
    by simp
  also have "\<dots> = (f \<or> list_ex (\<lambda>u. Username u = username \<and> Password u = password) (u # us),
      tcp\<lparr>io := io tcp @ compares username password (u # us)\<rparr>)"
    unfolding check_user_eq Cons.IH by (simp add: compares_def)
  finally show ?case .
qed

lemma scan_users_eq:
  "scan_users username password tcp =
     (list_ex (\<lambda>u. Username u = username \<and> Password u = password) (Users (conf tcp)),
      tcp\<lparr>io := io tcp @ compares username password (Users (conf tcp))\<rparr>)"
  by (simp add: scan_users_def foldl_check_user)

lemma foldl_or_list_ex: "foldl (\<or>) b (map P xs) = (b \<or> list_ex P xs)"
  by (induction xs arbitrary: b) auto

subsection \<open>The calls on the client connection, in closed form\<close>

lemma Write_eq:
  "Write b tcp =
     (accepted (clientW tcp) (length b) = length b,
      tcp\<lparr>clientW := map_option (\<lambda>k. k - length b) (clientW tcp),
          io := io tcp @ [ClientWrite b (accepted (clientW tcp) (length b))]\<rparr>)"
  by (cases "clientW tcp") (auto simp: Write_def accepted_def emit_def min_def)

lemma select_method_255: "(select_method ms = 255) = (2 \<notin> set ms)"
  by (induction ms) auto

lemma select_method_2: "2 \<in> set ms \<Longrightarrow> select_method ms = 2"
  by (induction ms) auto

lemma Auth_greeting:
  assumes "clientR tcp = 5 # nmethod # methods @ rest" and "length methods = unat nmethod"
  shows "Auth tcp =
     (let tcp' = tcp\<lparr>clientR := rest,
                     clientW := map_option (\<lambda>k. k - 2) (clientW tcp),
                     io := io tcp @ [ClientRead 1 [5], ClientRead 1 [nmethod]] @ methods_read methods
                           @ [ClientWrite [5, select_method methods] (accepted (clientW tcp) 2)]\<rparr>
      in if accepted (clientW tcp) 2 = 2 \<and> 2 \<in> set methods then Auth_subneg tcp' else (False, tcp'))"
proof -
  have n: "unat nmethod = length methods" using assms(2) by simp
  show ?thesis
    by (simp add: Auth_def ReadByte_def ReadFull_def emit_def assms(1) n Write_eq Let_def
          methods_read_def select_method_255 select_method_2 numeral_2_eq_2[symmetric] split: bool.splits)
qed

subsection \<open>Auth, path by path\<close>

lemma Auth_verify_eq:
  "Auth_verify username password tcp =
     (let m = list_ex (\<lambda>u. Username u = username \<and> Password u = password) (Users (conf tcp))
      in (m \<and> accepted (clientW tcp) 2 = 2,
          tcp\<lparr>clientW := map_option (\<lambda>k. k - 2) (clientW tcp),
              io := io tcp @ compares username password (Users (conf tcp))
                    @ [ClientWrite [1, if m then 0 else 1] (accepted (clientW tcp) 2)]\<rparr>))"
  by (simp add: Auth_verify_def scan_users_eq Write_eq Let_def numeral_2_eq_2[symmetric]
        split: bool.splits)

lemma Auth_subneg_wellformed:
  assumes "clientR tcp = 1 # ulen # username @ plen # password @ rest"
    and "length username = unat ulen" and "length password = unat plen"
    and "ulen \<noteq> 0" and "plen \<noteq> 0"
  shows "Auth_subneg tcp =
     Auth_verify username password
       (tcp\<lparr>clientR := rest,
            io := io tcp @ [ClientRead 1 [1], ClientRead 1 [ulen],
                            ClientRead (length username) username,
                            ClientRead 1 [plen],
                            ClientRead (length password) password]\<rparr>)"
proof -
  have u: "unat ulen = length username" and p: "unat plen = length password"
    using assms(2,3) by simp_all
  have "username \<noteq> []" using assms(4) u by (auto simp: unat_eq_0)
  moreover have "password \<noteq> []" using assms(5) p by (auto simp: unat_eq_0)
  ultimately show ?thesis
    by (simp add: Auth_subneg_def ReadByte_def ReadFull_def emit_def assms(1,4,5) u p)
qed




subsection \<open>Req, path by path\<close>

lemma read_req_eq:
  assumes "clientR tcp = v # c # r # a # rest"
  shows "read_req tcp =
     (Some \<lparr>req.Ver = v, Cmd = c, req.Rsv = r, req.Atyp = a\<rparr>,
      tcp\<lparr>clientR := rest, io := io tcp @ [ClientRead 4 [v, c, r, a]]\<rparr>)"
  by (simp add: read_req_def ReadFull_def emit_def assms)

lemma read_ipv4Addr_eq:
  assumes "clientR tcp = a0 # a1 # a2 # a3 # p0 # p1 # rest"
  shows "read_ipv4Addr tcp =
     (Some \<lparr>Addr = [a0, a1, a2, a3], ipv4Addr.Port = Uint16 p0 p1\<rparr>,
      tcp\<lparr>clientR := rest, io := io tcp @ [ClientRead 6 [a0, a1, a2, a3, p0, p1]]\<rparr>)"
  by (simp add: read_ipv4Addr_def ReadFull_def emit_def assms)

lemma Req_bad_header:
  assumes "clientR tcp = v # c # r # a # rest"
    and "v \<noteq> 5 \<or> c \<noteq> 1 \<or> r \<noteq> 0 \<or> a \<noteq> 1"
  shows "Req DialTCP tcp =
     (False, tcp\<lparr>clientR := rest, io := io tcp @ [ClientRead 4 [v, c, r, a]]\<rparr>)"
  using assms(2) by (auto simp add: Req_def read_req_eq [OF assms(1)])

lemma Req_dial_failure:
  assumes "clientR tcp = 5 # 1 # 0 # 1 # a0 # a1 # a2 # a3 # p0 # p1 # rest"
    and "DialTCP \<lparr>IP = [a0, a1, a2, a3], TCPAddr.Port = uint (Uint16 p0 p1)\<rparr> = None"
  shows "Req DialTCP tcp =
     (False,
      tcp\<lparr>clientR := rest,
          clientW := map_option (\<lambda>k. k - 4) (clientW tcp),
          io := io tcp @ [ClientRead 4 [5, 1, 0, 1], ClientRead 6 [a0, a1, a2, a3, p0, p1],
                          Dial \<lparr>IP = [a0, a1, a2, a3], TCPAddr.Port = uint (Uint16 p0 p1)\<rparr> None,
                          ClientWrite [5, 1, 0, 1] (accepted (clientW tcp) 4)]\<rparr>)"
proof -
  let ?t1 = "tcp\<lparr>clientR := a0 # a1 # a2 # a3 # p0 # p1 # rest,
                  io := io tcp @ [ClientRead 4 [5, 1, 0, 1]]\<rparr>"
  have r1: "read_req tcp = (Some \<lparr>req.Ver = 5, Cmd = 1, req.Rsv = 0, req.Atyp = 1\<rparr>, ?t1)"
    by (rule read_req_eq [OF assms(1)])
  have r2: "read_ipv4Addr ?t1 =
     (Some \<lparr>Addr = [a0, a1, a2, a3], ipv4Addr.Port = Uint16 p0 p1\<rparr>,
      ?t1\<lparr>clientR := rest, io := io ?t1 @ [ClientRead 6 [a0, a1, a2, a3, p0, p1]]\<rparr>)"
    by (rule read_ipv4Addr_eq) simp
  have four: "Suc (Suc (Suc (Suc 0))) = 4" by simp
  show ?thesis
    unfolding Req_def r1
    by (simp add: r2 assms(2) Let_def write_res_def Write_eq emit_def four)
qed

lemma PutUint16_word_of_int:
  "PutUint16 (word_of_int p) = [word_of_int (p div 256), word_of_int (p mod 256)]"
proof -
  have hi: "(ucast (drop_bit 8 (word_of_int p :: 16 word)) :: byte) = word_of_int (drop_bit 8 p)"
    by (rule bit_eqI) (auto simp add: bit_simps)
  have lo: "(ucast (word_of_int p :: 16 word) :: byte) = word_of_int (take_bit 8 p)"
    by (rule bit_eqI) (auto simp add: bit_simps)
  show ?thesis
    unfolding PutUint16_def hi lo by (simp add: drop_bit_eq_div take_bit_eq_mod)
qed

lemma uint_Uint16: "uint (Uint16 b0 b1) = uint b0 * 256 + uint b1"
proof -
  have "uint (Uint16 b0 b1) = concat_bit 8 (uint b1) (uint b0)"
    unfolding Uint16_def
    by (rule bit_eqI) (auto simp add: bit_simps dest: bit_imp_le_length)
  also have "\<dots> = take_bit 8 (uint b1) + push_bit 8 (uint b0)"
    by (rule concat_bit_eq)
  also have "take_bit 8 (uint b1) = uint b1"
    by (rule take_bit_int_eq_self) (use uint_lt2p [of b1] in simp_all)
  finally show ?thesis by (simp add: push_bit_eq_mult)
qed

lemma length_To4: "To4 ip \<noteq> [] \<Longrightarrow> length (To4 ip) = 4"
  by (auto simp: To4_def split: if_splits)

lemma copy_4: "length src = 4 \<Longrightarrow> copy [0, 0, 0, 0 :: byte] src = src"
  by (simp add: copy_def)

lemma length_copy_4: "length (copy [a, b, c, d] src) = 4"
  by (simp add: copy_def)

lemma accepted_split:
  "accepted w 10 = 10 \<Longrightarrow> accepted w 4 = 4 \<and> accepted (map_option (\<lambda>k. k - 4) w) 6 = 6"
  by (cases w) (auto simp: accepted_def min_def split: if_splits)

lemma Req_dial_success:
  assumes "clientR tcp = 5 # 1 # 0 # 1 # a0 # a1 # a2 # a3 # p0 # p1 # rest"
    and "DialTCP \<lparr>IP = [a0, a1, a2, a3], TCPAddr.Port = uint (Uint16 p0 p1)\<rparr> = Some srv"
    and "accepted (clientW tcp) 10 = 10"
  shows "Req DialTCP tcp =
     (True,
      tcp\<lparr>clientR := rest,
          clientW := map_option (\<lambda>k. k - 10) (clientW tcp),
          server := Some srv,
          io := io tcp @ [ClientRead 4 [5, 1, 0, 1], ClientRead 6 [a0, a1, a2, a3, p0, p1],
                          Dial \<lparr>IP = [a0, a1, a2, a3], TCPAddr.Port = uint (Uint16 p0 p1)\<rparr> (Some srv),
                          ClientWrite [5, 0, 0, 1] 4,
                          ClientWrite (copy [0, 0, 0, 0] (To4 (IP (LocalAddr srv)))
                                       @ PutUint16 (word_of_int (TCPAddr.Port (LocalAddr srv)))) 6]\<rparr>)"
proof -
  let ?t1 = "tcp\<lparr>clientR := a0 # a1 # a2 # a3 # p0 # p1 # rest,
                  io := io tcp @ [ClientRead 4 [5, 1, 0, 1]]\<rparr>"
  have r1: "read_req tcp = (Some \<lparr>req.Ver = 5, Cmd = 1, req.Rsv = 0, req.Atyp = 1\<rparr>, ?t1)"
    by (rule read_req_eq [OF assms(1)])
  have r2: "read_ipv4Addr ?t1 =
     (Some \<lparr>Addr = [a0, a1, a2, a3], ipv4Addr.Port = Uint16 p0 p1\<rparr>,
      ?t1\<lparr>clientR := rest, io := io ?t1 @ [ClientRead 6 [a0, a1, a2, a3, p0, p1]]\<rparr>)"
    by (rule read_ipv4Addr_eq) simp
  have four: "Suc (Suc (Suc (Suc 0))) = 4" by simp
  have six: "Suc (Suc (Suc (Suc (Suc (Suc 0))))) = 6" by simp
  have len: "length (copy [0, 0, 0, 0] (To4 (IP (LocalAddr srv)))
               @ PutUint16 (word_of_int (TCPAddr.Port (LocalAddr srv)))) = 6"
    by (simp add: length_copy_4 PutUint16_def)
  have w: "accepted (clientW tcp) 4 = 4" "accepted (map_option (\<lambda>k. k - 4) (clientW tcp)) 6 = 6"
    using accepted_split [OF assms(3)] by simp_all
  have sub: "map_option (\<lambda>k. k - 6) (map_option (\<lambda>k. k - 4) (clientW tcp))
             = map_option (\<lambda>k. k - 10) (clientW tcp)"
    by (cases "clientW tcp") simp_all
  show ?thesis
    unfolding Req_def r1
    by (simp add: r2 assms(2) Let_def write_res_def write_ipv4Addr_def Write_eq emit_def four
          len w sub del: length_append)
qed

subsection \<open>Only handshake calls before the relay\<close>

lemma other_events_append [simp]: "other_events (xs @ ys) = other_events xs @ other_events ys"
  by (simp add: other_events_def)

lemma other_events_Nil [simp]: "other_events [] = []"
  by (simp add: other_events_def)

lemma other_events_Cons:
  "other_events (e # es) = (if handshake_event e then other_events es else e # other_events es)"
  by (simp add: other_events_def)

lemma other_events_compares [simp]: "other_events (compares username password us) = []"
  by (induction us) (simp_all add: compares_def other_events_Cons)

lemma Auth_verify_other:
  "other_events (io (snd (Auth_verify username password tcp))) = other_events (io tcp)"
  by (simp add: Auth_verify_eq Let_def other_events_Cons)

lemma Auth_subneg_other: "other_events (io (snd (Auth_subneg tcp))) = other_events (io tcp)"
  by (simp add: Auth_subneg_def ReadByte_def ReadFull_def emit_def Auth_verify_other
        other_events_Cons split: list.splits)

lemma Auth_other: "other_events (io (snd (Auth tcp))) = other_events (io tcp)"
  by (simp add: Auth_def ReadByte_def ReadFull_def emit_def Write_eq Auth_subneg_other Let_def
        other_events_Cons split: list.splits bool.splits)

lemma Req_other: "other_events (io (snd (Req DialTCP tcp))) = other_events (io tcp)"
  by (simp add: Req_def read_req_def read_ipv4Addr_def write_res_def write_ipv4Addr_def
        ReadFull_def emit_def Write_eq Let_def other_events_Cons
        split: option.splits bool.splits)

lemma Req_server: "fst (Req DialTCP tcp) \<Longrightarrow> server (snd (Req DialTCP tcp)) \<noteq> None"
  by (simp add: Req_def read_req_def read_ipv4Addr_def write_res_def write_ipv4Addr_def
        ReadFull_def emit_def Write_eq Let_def
        split: option.splits bool.splits if_splits)

subsection \<open>Sessions that end in Auth\<close>

lemma sent_append [simp]: "sent (xs @ ys) = sent xs @ sent ys"
  by (induction xs rule: sent.induct) simp_all

lemma sent_methods_read [simp]: "sent (methods_read methods) = []"
  by (simp add: methods_read_def)

lemma sent_compares [simp]: "sent (compares username password us) = []"
  by (induction us) (simp_all add: compares_def)

lemma Close_io:
  "io (Close tcp) = io tcp @ (if server tcp \<noteq> None then [ServerClose] else []) @ [ClientClose]"
  by (simp add: Close_def emit_def)

lemma Auth_server: "server (snd (Auth tcp)) = server tcp"
  by (simp add: Auth_def Auth_subneg_def Auth_verify_eq ReadByte_def ReadFull_def emit_def Write_eq
        Let_def split: list.splits bool.splits)

lemma runTCPConn_Auth_False:
  assumes "\<not> fst (Auth (NewTCPConn input wcap c))"
  shows "io (runTCPConn input wcap c DialTCP ds) =
           io (snd (Auth (NewTCPConn input wcap c))) @ [ClientClose]"
proof -
  obtain tcp where a: "Auth (NewTCPConn input wcap c) = (False, tcp)"
    using assms by (cases "Auth (NewTCPConn input wcap c)") auto
  have "server tcp = None"
    using Auth_server [of "NewTCPConn input wcap c"] a by (simp add: NewTCPConn_def)
  then show ?thesis by (simp add: runTCPConn_def a Close_io)
qed

lemma Auth_new_greeting:
  assumes "length methods = unat nmethod"
  shows "Auth (NewTCPConn (5 # nmethod # methods @ rest) wcap c) =
     (let tcp' = \<lparr>conf = c, clientR = rest, clientW = map_option (\<lambda>k. k - 2) wcap,
                  server = None,
                  io = [ClientRead 1 [5], ClientRead 1 [nmethod]] @ methods_read methods
                       @ [ClientWrite [5, select_method methods] (accepted wcap 2)]\<rparr>
      in if accepted wcap 2 = 2 \<and> 2 \<in> set methods then Auth_subneg tcp' else (False, tcp'))"
proof -
  let ?n = "NewTCPConn (5 # nmethod # methods @ rest) wcap c"
  have n: "clientR ?n = 5 # nmethod # methods @ rest" by (simp add: NewTCPConn_def)
  show ?thesis
    unfolding Auth_greeting [OF n assms] by (simp add: NewTCPConn_def)
qed

subsection \<open>Helpers for the claims\<close>

lemma accepted_4_2: "accepted w 4 = 4 \<Longrightarrow> accepted w 2 = 2 \<and> accepted (map_option (\<lambda>k. k - 2) w) 2 = 2"
  by (cases w) (auto simp: accepted_def min_def split: if_splits)

lemma example_Auth:
  "Auth (NewTCPConn (example_handshake @ rest) None example_conf) =
     (True, \<lparr>conf = example_conf, clientR = rest, clientW = None, server = None,
             io = example_auth_io\<rparr>)"
proof -
  have e: "example_handshake @ rest =
           5 # 1 # [2] @ 1 # 4 # [117, 115, 101, 114] @ 4 # [112, 97, 115, 115] @ rest"
    by (simp add: example_handshake_def)
  have g: "Auth (NewTCPConn (example_handshake @ rest) None example_conf) =
           Auth_subneg \<lparr>conf = example_conf,
                        clientR = 1 # 4 # [117, 115, 101, 114] @ 4 # [112, 97, 115, 115] @ rest,
                        clientW = None, server = None,
                        io = [ClientRead 1 [5], ClientRead 1 [1], ClientRead 1 [2],
                              ClientWrite [5, 2] 2]\<rparr>"
    unfolding e using Auth_new_greeting [of "[2]" 1 _ None example_conf]
    by (simp add: Let_def methods_read_def accepted_def)
  show ?thesis
    unfolding g
    by (subst Auth_subneg_wellformed [of _ 4 "[117, 115, 101, 114]" 4 "[112, 97, 115, 115]" rest])
       (simp_all add: Auth_verify_eq Let_def example_conf_def compares_def accepted_def
          example_auth_io_def)
qed

subsection \<open>The relay and the end of the session\<close>

lemma port_bytes:
  assumes "0 \<le> p" and "p < 65536"
  shows "uint (word_of_int (p div 256) :: byte) * 256 + uint (word_of_int (p mod 256) :: byte) = p"
proof -
  have "p div 256 < 256" using assms by simp
  moreover have "0 \<le> p div 256" using assms by simp
  ultimately have hi: "uint (word_of_int (p div 256) :: byte) = p div 256"
    by (simp add: uint_word_of_int)
  have lo: "uint (word_of_int (p mod 256) :: byte) = p mod 256"
    by (simp add: uint_word_of_int)
  show ?thesis unfolding hi lo by simp
qed

lemma relay_fst: "fst (relay ds g tcp) = (ServerToClient \<in> set ds)"
  by (induction ds g tcp rule: relay.induct) auto

lemma relay_goroutine:
  "fst (snd (relay ds g tcp)) =
     (g \<and> ClientToServer \<notin> set (takeWhile (\<lambda>d. d \<noteq> ServerToClient) ds))"
  by (induction ds g tcp rule: relay.induct) auto

lemma relay_server: "server (snd (snd (relay ds g tcp))) = server tcp"
  by (induction ds g tcp rule: relay.induct) (auto simp: emit_def)

lemma relay_io:
  "io (snd (snd (relay ds g tcp))) =
     io tcp
     @ (if g \<and> ClientToServer \<in> set (takeWhile (\<lambda>d. d \<noteq> ServerToClient) ds)
        then [CopyEnd ClientToServer] else [])
     @ (if ServerToClient \<in> set ds then [CopyEnd ServerToClient] else [])"
  by (induction ds g tcp rule: relay.induct) (auto simp: emit_def)

lemma other_events_empty:
  assumes "other_events es = []"
  shows "RunCalled \<notin> set es" and "ServerClose \<notin> set es" and "ClientClose \<notin> set es"
    and "CopyEnd d \<notin> set es"
  using assms by (auto simp: other_events_def filter_empty_conv)

lemma Auth_new_other: "other_events (io (snd (Auth (NewTCPConn input wcap c)))) = []"
  by (simp add: Auth_other) (simp add: NewTCPConn_def)

lemma runTCPConn_relay:
  assumes "Auth (NewTCPConn input wcap c) = (True, tcp1)" and "Req DialTCP tcp1 = (True, tcp2)"
  shows "io (runTCPConn input wcap c DialTCP ds) =
     io tcp2 @ [RunCalled]
     @ (if ClientToServer \<in> set (takeWhile (\<lambda>d. d \<noteq> ServerToClient) ds)
        then [CopyEnd ClientToServer] else [])
     @ (if ServerToClient \<in> set ds
        then [CopyEnd ServerToClient, ServerClose, ClientClose]
             @ (if ClientToServer \<in> set (takeWhile (\<lambda>d. d \<noteq> ServerToClient) ds)
                then [] else [CopyEnd ClientToServer])
        else [])"
proof -
  have s: "server tcp2 \<noteq> None" using Req_server [of DialTCP tcp1] assms(2) by simp
  obtain b g t where r: "Run ds tcp2 = (b, g, t)" by (cases "Run ds tcp2") auto
  have b: "b = (ServerToClient \<in> set ds)"
    using relay_fst [of ds True "emit RunCalled tcp2"] r by (simp add: Run_def)
  have g: "g = (ClientToServer \<notin> set (takeWhile (\<lambda>d. d \<noteq> ServerToClient) ds))"
    using relay_goroutine [of ds True "emit RunCalled tcp2"] r by (simp add: Run_def)
  have st: "server t \<noteq> None"
    using relay_server [of ds True "emit RunCalled tcp2"] r s by (simp add: Run_def emit_def)
  have it: "io t = io tcp2 @ [RunCalled]
     @ (if ClientToServer \<in> set (takeWhile (\<lambda>d. d \<noteq> ServerToClient) ds)
        then [CopyEnd ClientToServer] else [])
     @ (if ServerToClient \<in> set ds then [CopyEnd ServerToClient] else [])"
    using relay_io [of ds True "emit RunCalled tcp2"] r by (simp add: Run_def emit_def)
  show ?thesis
    by (simp add: runTCPConn_def assms r b g Close_io st it goroutine_end_def emit_def)
qed

lemma Req_first_call:
  "\<exists>es. io (snd (Req DialTCP tcp)) = io tcp @ ClientRead 4 (take 4 (clientR tcp)) # es"
  by (simp add: Req_def read_req_def read_ipv4Addr_def write_res_def write_ipv4Addr_def
        ReadFull_def emit_def Write_eq Let_def
        split: option.splits bool.splits)

lemma runTCPConn_extends_Req:
  assumes "Auth (NewTCPConn input wcap c) = (True, tcp1)"
  shows "\<exists>es. io (runTCPConn input wcap c DialTCP ds) = io (snd (Req DialTCP tcp1)) @ es"
proof -
  obtain q tcp2 where q: "Req DialTCP tcp1 = (q, tcp2)" by (cases "Req DialTCP tcp1")
  show ?thesis
  proof (cases q)
    case True
    then show ?thesis using runTCPConn_relay [OF assms, of DialTCP tcp2 ds] q by simp
  next
    case False
    then show ?thesis by (simp add: runTCPConn_def assms q Close_io)
  qed
qed

lemma runTCPConn_next_call:
  assumes "Auth (NewTCPConn input wcap c) = (True, tcp1)"
  shows "take (Suc (length (io tcp1))) (io (runTCPConn input wcap c DialTCP ds)) =
           io tcp1 @ [ClientRead 4 (take 4 (clientR tcp1))]"
proof -
  obtain es where e: "io (runTCPConn input wcap c DialTCP ds) = io (snd (Req DialTCP tcp1)) @ es"
    using runTCPConn_extends_Req [OF assms] by blast
  obtain es' where e': "io (snd (Req DialTCP tcp1)) = io tcp1 @ ClientRead 4 (take 4 (clientR tcp1)) # es'"
    using Req_first_call by blast
  show ?thesis unfolding e e' by simp
qed



subsection \<open>The example session\<close>

lemma example_Req_ok:
  "Req dial_ok \<lparr>conf = example_conf, clientR = example_request, clientW = None,
                 server = None, io = example_auth_io\<rparr> =
     (True, \<lparr>conf = example_conf, clientR = [], clientW = None,
             server = Some (SrvConn \<lparr>IP = [10, 0, 0, 1], TCPAddr.Port = 40000\<rparr>),
             io = example_auth_io @ example_req_io\<rparr>)"
proof -
  let ?t = "\<lparr>conf = example_conf, clientR = example_request, clientW = None,
             server = None, io = example_auth_io\<rparr>"
  have c: "clientR ?t = 5 # 1 # 0 # 1 # 127 # 0 # 0 # 1 # 0 # 80 # []"
    by (simp add: example_request_def)
  have d: "dial_ok \<lparr>IP = [127, 0, 0, 1], TCPAddr.Port = uint (Uint16 0 80)\<rparr> =
           Some (SrvConn \<lparr>IP = [10, 0, 0, 1], TCPAddr.Port = 40000\<rparr>)"
    by (simp add: dial_ok_def)
  have w: "accepted (clientW ?t) 10 = 10" by (simp add: accepted_def)
  have p: "PutUint16 40000 = [156, 64]"
    using PutUint16_word_of_int [of 40000] by simp
  show ?thesis
    unfolding Req_dial_success [where DialTCP = dial_ok, OF c d w]
    by (simp add: uint_Uint16 p To4_def copy_def example_req_io_def)
qed

lemma example_Req_refused:
  "Req dial_refused \<lparr>conf = example_conf, clientR = example_request, clientW = None,
                      server = None, io = example_auth_io\<rparr> =
     (False, \<lparr>conf = example_conf, clientR = [], clientW = None, server = None,
              io = example_auth_io @
                   [ClientRead 4 [5, 1, 0, 1], ClientRead 6 [127, 0, 0, 1, 0, 80],
                    Dial \<lparr>IP = [127, 0, 0, 1], TCPAddr.Port = 80\<rparr> None,
                    ClientWrite [5, 1, 0, 1] 4]\<rparr>)"
proof -
  let ?t = "\<lparr>conf = example_conf, clientR = example_request, clientW = None,
             server = None, io = example_auth_io\<rparr>"
  have c: "clientR ?t = 5 # 1 # 0 # 1 # 127 # 0 # 0 # 1 # 0 # 80 # []"
    by (simp add: example_request_def)
  have d: "dial_refused \<lparr>IP = [127, 0, 0, 1], TCPAddr.Port = uint (Uint16 0 80)\<rparr> = None"
    by (simp add: dial_refused_def)
  show ?thesis
    unfolding Req_dial_failure [where DialTCP = dial_refused, OF c d]
    by (simp add: uint_Uint16 accepted_def)
qed

lemma sent_example_auth_io: "sent example_auth_io = [5, 2, 1, 0]"
  by (simp add: example_auth_io_def)

section \<open>The claims\<close>

text \<open>
  C2. For every presented username and password and every configured credential list,
  the credential scan of \<^verbatim>\<open>Auth\<close> calls the comparison on every configured credential,
  in order and without leaving the loop early (its record of calls grows by two comparisons
  per credential, whatever matches); its result is the logical OR of the per-credential
  results; and it is true exactly when some configured credential equals the presented
  username and password byte for byte.
\<close>

theorem credential_scan_full_and_exact:
  "io (snd (scan_users username password tcp)) =
       io tcp @ concat (map (\<lambda>u. [Compare username (Username u), Compare password (Password u)])
                            (Users (conf tcp)))
   \<and> fst (scan_users username password tcp) =
       foldl (\<or>) False
         (map (\<lambda>u. ConstantTimeCompare username (Username u) = 1
                  \<and> ConstantTimeCompare password (Password u) = 1) (Users (conf tcp)))
   \<and> fst (scan_users username password tcp) =
       (\<exists>u \<in> set (Users (conf tcp)). Username u = username \<and> Password u = password)"
  by (auto simp add: scan_users_eq compares_def foldl_or_list_ex ConstantTimeCompare_eq list_ex_iff)

theorem credential_scan_full_and_exact_witness:
  "io (snd (scan_users [1] [2]
        (NewTCPConn [] None \<lparr>Users = [\<lparr>Username = [1], Password = [2]\<rparr>,
                                       \<lparr>Username = [3], Password = [4]\<rparr>]\<rparr>)))
     = [Compare [1] [1], Compare [2] [2], Compare [1] [3], Compare [2] [4]]
   \<and> fst (scan_users [1] [2]
        (NewTCPConn [] None \<lparr>Users = [\<lparr>Username = [1], Password = [2]\<rparr>,
                                       \<lparr>Username = [3], Password = [4]\<rparr>]\<rparr>))"
  using credential_scan_full_and_exact [of "[1]" "[2]"
      "NewTCPConn [] None \<lparr>Users = [\<lparr>Username = [1], Password = [2]\<rparr>,
                                     \<lparr>Username = [3], Password = [4]\<rparr>]\<rparr>"]
  by (simp add: NewTCPConn_def ConstantTimeCompare_eq)

text \<open>
  C7. For every greeting of version 5 whose offered method list does not contain method 2,
  \<^verbatim>\<open>Auth\<close> makes exactly one \<^verbatim>\<open>Write\<close>, of the two bytes 05 FF, and returns false; the
  bytes after the greeting stay unread, and the whole session consists of the greeting
  reads, that write and the close of the client connection, with no read after the write.
  The client receives 05 FF (the part of it that its connection accepts).
\<close>

theorem greeting_without_method_2:
  assumes "length methods = unat nmethod" and "2 \<notin> set methods"
  shows "fst (Auth (NewTCPConn (5 # nmethod # methods @ rest) wcap c)) = False
       \<and> io (snd (Auth (NewTCPConn (5 # nmethod # methods @ rest) wcap c))) =
           [ClientRead 1 [5], ClientRead 1 [nmethod]] @ methods_read methods
           @ [ClientWrite [5, 255] (accepted wcap 2)]
       \<and> clientR (snd (Auth (NewTCPConn (5 # nmethod # methods @ rest) wcap c))) = rest
       \<and> io (runTCPConn (5 # nmethod # methods @ rest) wcap c DialTCP ds) =
           [ClientRead 1 [5], ClientRead 1 [nmethod]] @ methods_read methods
           @ [ClientWrite [5, 255] (accepted wcap 2), ClientClose]
       \<and> sent (io (runTCPConn (5 # nmethod # methods @ rest) wcap c DialTCP ds)) =
           take (accepted wcap 2) [5, 255]"
proof -
  let ?n = "NewTCPConn (5 # nmethod # methods @ rest) wcap c"
  have m: "select_method methods = 255" using assms(2) by (simp add: select_method_255)
  have a: "Auth ?n =
     (False, \<lparr>conf = c, clientR = rest, clientW = map_option (\<lambda>k. k - 2) wcap, server = None,
              io = [ClientRead 1 [5], ClientRead 1 [nmethod]] @ methods_read methods
                   @ [ClientWrite [5, 255] (accepted wcap 2)]\<rparr>)"
    unfolding Auth_new_greeting [OF assms(1)] using assms(2) by (simp add: m Let_def)
  have r: "io (runTCPConn (5 # nmethod # methods @ rest) wcap c DialTCP ds) =
             io (snd (Auth ?n)) @ [ClientClose]"
    by (rule runTCPConn_Auth_False) (simp add: a)
  show ?thesis unfolding r a by simp
qed

theorem greeting_without_method_2_witness:
  "length [3 :: byte] = unat (1 :: byte) \<and> 2 \<notin> set [3 :: byte]
   \<and> fst (Auth (NewTCPConn [5, 1, 3, 9, 9] None \<lparr>Users = []\<rparr>)) = False
   \<and> io (snd (Auth (NewTCPConn [5, 1, 3, 9, 9] None \<lparr>Users = []\<rparr>))) =
       [ClientRead 1 [5], ClientRead 1 [1], ClientRead 1 [3], ClientWrite [5, 255] 2]
   \<and> clientR (snd (Auth (NewTCPConn [5, 1, 3, 9, 9] None \<lparr>Users = []\<rparr>))) = [9, 9]
   \<and> io (runTCPConn [5, 1, 3, 9, 9] None \<lparr>Users = []\<rparr> dial_refused []) =
       [ClientRead 1 [5], ClientRead 1 [1], ClientRead 1 [3], ClientWrite [5, 255] 2, ClientClose]
   \<and> sent (io (runTCPConn [5, 1, 3, 9, 9] None \<lparr>Users = []\<rparr> dial_refused [])) = [5, 255]"
  using greeting_without_method_2 [of "[3]" 1 "[9, 9]" None "\<lparr>Users = []\<rparr>" dial_refused "[]"]
  by (simp add: methods_read_def accepted_def)

text \<open>
  C10. For a greeting of version 5 with method count 0 (bytes 05 00), \<^verbatim>\<open>Auth\<close> reads no
  method bytes and meets no error there (also when the stream ends right after 05 00),
  writes the reply 05 FF and returns false; the session then only closes the client
  connection.
\<close>

theorem empty_method_list:
  "fst (Auth (NewTCPConn (5 # 0 # rest) wcap c)) = False
   \<and> io (snd (Auth (NewTCPConn (5 # 0 # rest) wcap c))) =
       [ClientRead 1 [5], ClientRead 1 [0], ClientWrite [5, 255] (accepted wcap 2)]
   \<and> clientR (snd (Auth (NewTCPConn (5 # 0 # rest) wcap c))) = rest
   \<and> io (runTCPConn (5 # 0 # rest) wcap c DialTCP ds) =
       [ClientRead 1 [5], ClientRead 1 [0], ClientWrite [5, 255] (accepted wcap 2), ClientClose]"
proof -
  let ?n = "NewTCPConn (5 # 0 # rest) wcap c"
  have a: "Auth ?n =
     (False, \<lparr>conf = c, clientR = rest, clientW = map_option (\<lambda>k. k - 2) wcap, server = None,
              io = [ClientRead 1 [5], ClientRead 1 [0],
                    ClientWrite [5, 255] (accepted wcap 2)]\<rparr>)"
    using Auth_new_greeting [of "[]" 0 rest wcap c] by (simp add: Let_def methods_read_def)
  have r: "io (runTCPConn (5 # 0 # rest) wcap c DialTCP ds) = io (snd (Auth ?n)) @ [ClientClose]"
    by (rule runTCPConn_Auth_False) (simp add: a)
  show ?thesis unfolding r a by simp
qed

text \<open>
  C4. A session whose greeting offers method 2 and whose sub-negotiation is well formed
  (version 1, non-zero lengths, the announced number of bytes), on a client connection
  that accepts the four reply bytes of the stage: \<^verbatim>\<open>Auth\<close> compares the presented fields
  with every credential and then writes 01 00 and returns true exactly when some
  configured credential equals both presented fields; otherwise it writes 01 01 and
  returns false, and the session only closes the client connection. On a match the
  session goes on with \<^verbatim>\<open>Req\<close> on the state that \<^verbatim>\<open>Auth\<close> left: its next call is the read
  of the four-byte request header from the bytes that follow the sub-negotiation, and all
  the calls of \<^verbatim>\<open>Req\<close> follow those of \<^verbatim>\<open>Auth\<close>.
\<close>

theorem subnegotiation_reply:
  assumes "length methods = unat nmethod" and "2 \<in> set methods"
    and "length username = unat ulen" and "ulen \<noteq> 0"
    and "length password = unat plen" and "plen \<noteq> 0"
    and "accepted wcap 4 = 4"
  shows "fst (Auth (NewTCPConn (5 # nmethod # methods @ 1 # ulen # username @ plen # password @ rest)
                      wcap c)) =
           (\<exists>u \<in> set (Users c). Username u = username \<and> Password u = password)
       \<and> io (snd (Auth (NewTCPConn (5 # nmethod # methods @ 1 # ulen # username @ plen # password @ rest)
                           wcap c))) =
           [ClientRead 1 [5], ClientRead 1 [nmethod]] @ methods_read methods
           @ [ClientWrite [5, 2] 2,
              ClientRead 1 [1], ClientRead 1 [ulen], ClientRead (length username) username,
              ClientRead 1 [plen], ClientRead (length password) password]
           @ compares username password (Users c)
           @ [ClientWrite [1, if \<exists>u \<in> set (Users c). Username u = username \<and> Password u = password
                              then 0 else 1] 2]
       \<and> clientR (snd (Auth (NewTCPConn (5 # nmethod # methods @ 1 # ulen # username @ plen # password @ rest)
                           wcap c))) = rest
       \<and> (\<not> (\<exists>u \<in> set (Users c). Username u = username \<and> Password u = password) \<longrightarrow>
            io (runTCPConn (5 # nmethod # methods @ 1 # ulen # username @ plen # password @ rest)
                  wcap c DialTCP ds) =
            io (snd (Auth (NewTCPConn (5 # nmethod # methods @ 1 # ulen # username @ plen # password @ rest)
                           wcap c))) @ [ClientClose])
       \<and> ((\<exists>u \<in> set (Users c). Username u = username \<and> Password u = password) \<longrightarrow>
            take (Suc (length (io (snd (Auth (NewTCPConn
                    (5 # nmethod # methods @ 1 # ulen # username @ plen # password @ rest)
                    wcap c))))))
              (io (runTCPConn (5 # nmethod # methods @ 1 # ulen # username @ plen # password @ rest)
                    wcap c DialTCP ds)) =
            io (snd (Auth (NewTCPConn (5 # nmethod # methods @ 1 # ulen # username @ plen # password @ rest)
                           wcap c))) @ [ClientRead 4 (take 4 rest)]
          \<and> take (length (io (snd (Req DialTCP (snd (Auth (NewTCPConn
                    (5 # nmethod # methods @ 1 # ulen # username @ plen # password @ rest)
                    wcap c)))))))
              (io (runTCPConn (5 # nmethod # methods @ 1 # ulen # username @ plen # password @ rest)
                    wcap c DialTCP ds)) =
            io (snd (Req DialTCP (snd (Auth (NewTCPConn
                    (5 # nmethod # methods @ 1 # ulen # username @ plen # password @ rest)
                    wcap c))))))"
proof -
  let ?sub = "1 # ulen # username @ plen # password @ rest"
  let ?t = "\<lparr>conf = c, clientR = ?sub, clientW = map_option (\<lambda>k. k - 2) wcap, server = None,
            io = [ClientRead 1 [5], ClientRead 1 [nmethod]] @ methods_read methods
                 @ [ClientWrite [5, select_method methods] (accepted wcap 2)]\<rparr>"
  have w: "accepted wcap 2 = 2" "accepted (map_option (\<lambda>k. k - 2) wcap) 2 = 2"
    using accepted_4_2 [OF assms(7)] by simp_all
  have g: "Auth (NewTCPConn (5 # nmethod # methods @ ?sub) wcap c) = Auth_subneg ?t"
    unfolding Auth_new_greeting [OF assms(1)] using assms(2) w by (simp add: Let_def)
  have s: "Auth_subneg ?t =
     Auth_verify username password
       (?t\<lparr>clientR := rest,
           io := io ?t @ [ClientRead 1 [1], ClientRead 1 [ulen],
                          ClientRead (length username) username,
                          ClientRead 1 [plen],
                          ClientRead (length password) password]\<rparr>)"
    by (rule Auth_subneg_wellformed [OF _ assms(3) assms(5) assms(4) assms(6)]) simp
  have r: "\<not> fst (Auth (NewTCPConn (5 # nmethod # methods @ ?sub) wcap c)) \<Longrightarrow>
     io (runTCPConn (5 # nmethod # methods @ ?sub) wcap c DialTCP ds) =
     io (snd (Auth (NewTCPConn (5 # nmethod # methods @ ?sub) wcap c))) @ [ClientClose]"
    by (rule runTCPConn_Auth_False)
  have f: "fst (Auth (NewTCPConn (5 # nmethod # methods @ ?sub) wcap c)) =
           (\<exists>u \<in> set (Users c). Username u = username \<and> Password u = password)"
    unfolding g s Auth_verify_eq using w by (simp add: Let_def list_ex_iff)
  have rest: "io (snd (Auth (NewTCPConn (5 # nmethod # methods @ ?sub) wcap c))) =
           [ClientRead 1 [5], ClientRead 1 [nmethod]] @ methods_read methods
           @ [ClientWrite [5, 2] 2,
              ClientRead 1 [1], ClientRead 1 [ulen], ClientRead (length username) username,
              ClientRead 1 [plen], ClientRead (length password) password]
           @ compares username password (Users c)
           @ [ClientWrite [1, if \<exists>u \<in> set (Users c). Username u = username \<and> Password u = password
                              then 0 else 1] 2]
       \<and> clientR (snd (Auth (NewTCPConn (5 # nmethod # methods @ ?sub) wcap c))) = rest"
    unfolding g s Auth_verify_eq
    using w assms(2) by (simp add: Let_def select_method_2 list_ex_iff)
  have n: "fst (Auth (NewTCPConn (5 # nmethod # methods @ ?sub) wcap c)) \<Longrightarrow>
     take (Suc (length (io (snd (Auth (NewTCPConn (5 # nmethod # methods @ ?sub) wcap c))))))
       (io (runTCPConn (5 # nmethod # methods @ ?sub) wcap c DialTCP ds)) =
     io (snd (Auth (NewTCPConn (5 # nmethod # methods @ ?sub) wcap c)))
     @ [ClientRead 4 (take 4 (clientR (snd (Auth (NewTCPConn (5 # nmethod # methods @ ?sub)
                                                    wcap c)))))]"
    using runTCPConn_next_call
            [of "5 # nmethod # methods @ ?sub" wcap c
                "snd (Auth (NewTCPConn (5 # nmethod # methods @ ?sub) wcap c))" DialTCP ds]
    by (cases "Auth (NewTCPConn (5 # nmethod # methods @ ?sub) wcap c)") simp
  have e: "fst (Auth (NewTCPConn (5 # nmethod # methods @ ?sub) wcap c)) \<Longrightarrow>
     take (length (io (snd (Req DialTCP
                              (snd (Auth (NewTCPConn (5 # nmethod # methods @ ?sub) wcap c)))))))
       (io (runTCPConn (5 # nmethod # methods @ ?sub) wcap c DialTCP ds)) =
     io (snd (Req DialTCP (snd (Auth (NewTCPConn (5 # nmethod # methods @ ?sub) wcap c)))))"
    using runTCPConn_extends_Req
            [of "5 # nmethod # methods @ ?sub" wcap c
                "snd (Auth (NewTCPConn (5 # nmethod # methods @ ?sub) wcap c))" DialTCP ds]
    by (cases "Auth (NewTCPConn (5 # nmethod # methods @ ?sub) wcap c)") auto
  show ?thesis using r n e f rest by simp
qed

theorem subnegotiation_reply_witness:
  "fst (Auth (NewTCPConn [5, 1, 2, 1, 4, 117, 115, 101, 114, 4, 112, 97, 115, 115] None example_conf))
   \<and> io (snd (Auth (NewTCPConn [5, 1, 2, 1, 4, 117, 115, 101, 114, 4, 112, 97, 115, 115] None
                       example_conf))) =
       [ClientRead 1 [5], ClientRead 1 [1], ClientRead 1 [2], ClientWrite [5, 2] 2,
        ClientRead 1 [1], ClientRead 1 [4], ClientRead 4 [117, 115, 101, 114],
        ClientRead 1 [4], ClientRead 4 [112, 97, 115, 115],
        Compare [117, 115, 101, 114] [117, 115, 101, 114],
        Compare [112, 97, 115, 115] [112, 97, 115, 115],
        ClientWrite [1, 0] 2]
   \<and> take (Suc (length (io (snd (Auth (NewTCPConn
             [5, 1, 2, 1, 4, 117, 115, 101, 114, 4, 112, 97, 115, 115] None example_conf))))))
        (io (runTCPConn [5, 1, 2, 1, 4, 117, 115, 101, 114, 4, 112, 97, 115, 115] None
               example_conf dial_ok [])) =
       io (snd (Auth (NewTCPConn [5, 1, 2, 1, 4, 117, 115, 101, 114, 4, 112, 97, 115, 115] None
                        example_conf)))
       @ [ClientRead 4 []]
   \<and> \<not> fst (Auth (NewTCPConn [5, 1, 2, 1, 4, 117, 115, 101, 114, 4, 112, 97, 115, 116] None
                     example_conf))
   \<and> io (runTCPConn [5, 1, 2, 1, 4, 117, 115, 101, 114, 4, 112, 97, 115, 116] None example_conf
            dial_ok []) =
       [ClientRead 1 [5], ClientRead 1 [1], ClientRead 1 [2], ClientWrite [5, 2] 2,
        ClientRead 1 [1], ClientRead 1 [4], ClientRead 4 [117, 115, 101, 114],
        ClientRead 1 [4], ClientRead 4 [112, 97, 115, 116],
        Compare [117, 115, 101, 114] [117, 115, 101, 114],
        Compare [112, 97, 115, 116] [112, 97, 115, 115],
        ClientWrite [1, 1] 2, ClientClose]"
  using subnegotiation_reply [of "[2]" 1 "[117, 115, 101, 114]" 4 "[112, 97, 115, 115]" 4 None
          "[]" example_conf dial_ok "[]"]
        subnegotiation_reply [of "[2]" 1 "[117, 115, 101, 114]" 4 "[112, 97, 115, 116]" 4 None
          "[]" example_conf dial_ok "[]"]
  by (auto simp add: example_conf_def methods_read_def compares_def accepted_def)



text \<open>
  C5. For every greeting whose version byte is not 5, whatever the configuration and the
  client connection, \<^verbatim>\<open>Auth\<close> returns false and the session consists of the read of that
  byte and the close: nothing is written. Independently of that, for every
  request header with version not 5, command not 1, reserved not 0 or address type not 1,
  received by a session that has authenticated, \<^verbatim>\<open>Req\<close> returns false having only read the
  four header bytes; the session closes, and the client has received nothing beyond the
  replies of the authentication stage.
\<close>

theorem bad_version_or_header_no_reply:
  "(ver \<noteq> 5 \<longrightarrow>
      fst (Auth (NewTCPConn (ver # rest) wcap c)) = False
    \<and> io (snd (Auth (NewTCPConn (ver # rest) wcap c))) = [ClientRead 1 [ver]]
    \<and> io (runTCPConn (ver # rest) wcap c DialTCP ds) = [ClientRead 1 [ver], ClientClose]
    \<and> sent (io (runTCPConn (ver # rest) wcap c DialTCP ds)) = [])
   \<and> ((v \<noteq> 5 \<or> cmd \<noteq> 1 \<or> rsv \<noteq> 0 \<or> atyp \<noteq> 1)
       \<and> Auth (NewTCPConn input wcap' c') = (True, tcp)
       \<and> clientR tcp = v # cmd # rsv # atyp # rest' \<longrightarrow>
      fst (Req DialTCP' tcp) = False
    \<and> io (snd (Req DialTCP' tcp)) = io tcp @ [ClientRead 4 [v, cmd, rsv, atyp]]
    \<and> io (runTCPConn input wcap' c' DialTCP' ds') =
        io tcp @ [ClientRead 4 [v, cmd, rsv, atyp], ClientClose]
    \<and> sent (io (runTCPConn input wcap' c' DialTCP' ds')) = sent (io tcp))"
proof (intro conjI impI)
  assume ver: "ver \<noteq> 5"
  have a: "Auth (NewTCPConn (ver # rest) wcap c) =
     (False, \<lparr>conf = c, clientR = rest, clientW = wcap, server = None,
              io = [ClientRead 1 [ver]]\<rparr>)"
    using ver by (simp add: Auth_def ReadByte_def emit_def NewTCPConn_def)
  have r1: "io (runTCPConn (ver # rest) wcap c DialTCP ds) =
            io (snd (Auth (NewTCPConn (ver # rest) wcap c))) @ [ClientClose]"
    by (rule runTCPConn_Auth_False) (simp add: a)
  show "fst (Auth (NewTCPConn (ver # rest) wcap c)) = False" by (simp add: a)
  show "io (snd (Auth (NewTCPConn (ver # rest) wcap c))) = [ClientRead 1 [ver]]"
    by (simp add: a)
  show "io (runTCPConn (ver # rest) wcap c DialTCP ds) = [ClientRead 1 [ver], ClientClose]"
    unfolding r1 by (simp add: a)
  show "sent (io (runTCPConn (ver # rest) wcap c DialTCP ds)) = []"
    unfolding r1 by (simp add: a)
next
  assume h: "(v \<noteq> 5 \<or> cmd \<noteq> 1 \<or> rsv \<noteq> 0 \<or> atyp \<noteq> 1)
       \<and> Auth (NewTCPConn input wcap' c') = (True, tcp)
       \<and> clientR tcp = v # cmd # rsv # atyp # rest'"
  then have bad: "v \<noteq> 5 \<or> cmd \<noteq> 1 \<or> rsv \<noteq> 0 \<or> atyp \<noteq> 1"
    and au: "Auth (NewTCPConn input wcap' c') = (True, tcp)"
    and cl: "clientR tcp = v # cmd # rsv # atyp # rest'"
    by simp_all
  have q: "Req DialTCP' tcp =
     (False, tcp\<lparr>clientR := rest', io := io tcp @ [ClientRead 4 [v, cmd, rsv, atyp]]\<rparr>)"
    by (rule Req_bad_header [OF cl bad])
  have s: "server tcp = None"
    using Auth_server [of "NewTCPConn input wcap' c'"] au by (simp add: NewTCPConn_def)
  have r2: "io (runTCPConn input wcap' c' DialTCP' ds') =
            io tcp @ [ClientRead 4 [v, cmd, rsv, atyp], ClientClose]"
    by (simp add: runTCPConn_def au q Close_io s)
  show "fst (Req DialTCP' tcp) = False" by (simp add: q)
  show "io (snd (Req DialTCP' tcp)) = io tcp @ [ClientRead 4 [v, cmd, rsv, atyp]]"
    by (simp add: q)
  show "io (runTCPConn input wcap' c' DialTCP' ds') =
        io tcp @ [ClientRead 4 [v, cmd, rsv, atyp], ClientClose]"
    by (rule r2)
  show "sent (io (runTCPConn input wcap' c' DialTCP' ds')) = sent (io tcp)"
    unfolding r2 by simp
qed

theorem bad_version_or_header_no_reply_witness:
  "fst (Auth (NewTCPConn [4, 1, 2] (Some 0) \<lparr>Users = []\<rparr>)) = False
   \<and> io (runTCPConn [4, 1, 2] (Some 0) \<lparr>Users = []\<rparr> dial_ok []) =
       [ClientRead 1 [4], ClientClose]
   \<and> sent (io (runTCPConn [4, 1, 2] (Some 0) \<lparr>Users = []\<rparr> dial_ok [])) = []
   \<and> fst (Req dial_ok \<lparr>conf = example_conf, clientR = [5, 2, 0, 1, 127, 0, 0, 1, 0, 80],
                        clientW = None, server = None, io = example_auth_io\<rparr>) = False
   \<and> io (runTCPConn (example_handshake @ [5, 2, 0, 1, 127, 0, 0, 1, 0, 80]) None example_conf
            dial_ok []) =
       example_auth_io @ [ClientRead 4 [5, 2, 0, 1], ClientClose]
   \<and> sent (io (runTCPConn (example_handshake @ [5, 2, 0, 1, 127, 0, 0, 1, 0, 80]) None
                  example_conf dial_ok [])) = [5, 2, 1, 0]"
  using bad_version_or_header_no_reply [where ver = 4 and rest = "[1, 2]" and wcap = "Some 0"
          and c = "\<lparr>Users = []\<rparr>" and DialTCP = dial_ok and ds = "[]"
          and v = 5 and cmd = 2 and rsv = 0 and atyp = 1
          and input = "example_handshake @ [5, 2, 0, 1, 127, 0, 0, 1, 0, 80]"
          and wcap' = None and c' = example_conf
          and tcp = "\<lparr>conf = example_conf, clientR = [5, 2, 0, 1, 127, 0, 0, 1, 0, 80],
                      clientW = None, server = None, io = example_auth_io\<rparr>"
          and rest' = "[127, 0, 0, 1, 0, 80]" and DialTCP' = dial_ok and ds' = "[]"]
  by (simp add: example_Auth) (simp add: example_auth_io_def)

text \<open>
  C6. A session that has authenticated and then receives a CONNECT request for an IPv4
  address whose dial succeeds, with the new connection bound to a local IPv4 address and
  a port below 65536, on a client connection that accepts the ten reply bytes: \<^verbatim>\<open>Req\<close>
  writes 05 00 00 01, then the four bytes of the local address of the new connection and
  its local port as two bytes, high byte first; it stores the connection, returns true,
  and the session enters \<^verbatim>\<open>Run\<close>.
\<close>

theorem connect_success_reply:
  assumes "Auth (NewTCPConn input wcap c) = (True, tcp)"
    and "clientR tcp = 5 # 1 # 0 # 1 # a0 # a1 # a2 # a3 # p0 # p1 # rest"
    and "DialTCP \<lparr>IP = [a0, a1, a2, a3], TCPAddr.Port = uint p0 * 256 + uint p1\<rparr> = Some srv"
    and "To4 (IP (LocalAddr srv)) \<noteq> []"
    and "0 \<le> TCPAddr.Port (LocalAddr srv)" and "TCPAddr.Port (LocalAddr srv) < 65536"
    and "accepted (clientW tcp) 10 = 10"
  shows "fst (Req DialTCP tcp)
       \<and> server (snd (Req DialTCP tcp)) = Some srv
       \<and> io (snd (Req DialTCP tcp)) =
           io tcp @
           [ClientRead 4 [5, 1, 0, 1], ClientRead 6 [a0, a1, a2, a3, p0, p1],
            Dial \<lparr>IP = [a0, a1, a2, a3], TCPAddr.Port = uint p0 * 256 + uint p1\<rparr> (Some srv),
            ClientWrite [5, 0, 0, 1] 4,
            ClientWrite (To4 (IP (LocalAddr srv))
                         @ [word_of_int (TCPAddr.Port (LocalAddr srv) div 256),
                            word_of_int (TCPAddr.Port (LocalAddr srv) mod 256)]) 6]
       \<and> sent (io (snd (Req DialTCP tcp))) =
           sent (io tcp) @ [5, 0, 0, 1] @ To4 (IP (LocalAddr srv))
           @ [word_of_int (TCPAddr.Port (LocalAddr srv) div 256),
              word_of_int (TCPAddr.Port (LocalAddr srv) mod 256)]
       \<and> length (To4 (IP (LocalAddr srv))) = 4
       \<and> uint (word_of_int (TCPAddr.Port (LocalAddr srv) div 256) :: byte) * 256
           + uint (word_of_int (TCPAddr.Port (LocalAddr srv) mod 256) :: byte)
           = TCPAddr.Port (LocalAddr srv)
       \<and> RunCalled \<in> set (io (runTCPConn input wcap c DialTCP ds))"
proof -
  have d: "DialTCP \<lparr>IP = [a0, a1, a2, a3], TCPAddr.Port = uint (Uint16 p0 p1)\<rparr> = Some srv"
    using assms(3) by (simp add: uint_Uint16)
  have l: "length (To4 (IP (LocalAddr srv))) = 4" by (rule length_To4 [OF assms(4)])
  have q: "Req DialTCP tcp =
     (True,
      tcp\<lparr>clientR := rest,
          clientW := map_option (\<lambda>k. k - 10) (clientW tcp),
          server := Some srv,
          io := io tcp @ [ClientRead 4 [5, 1, 0, 1], ClientRead 6 [a0, a1, a2, a3, p0, p1],
                          Dial \<lparr>IP = [a0, a1, a2, a3], TCPAddr.Port = uint p0 * 256 + uint p1\<rparr> (Some srv),
                          ClientWrite [5, 0, 0, 1] 4,
                          ClientWrite (To4 (IP (LocalAddr srv))
                                       @ [word_of_int (TCPAddr.Port (LocalAddr srv) div 256),
                                          word_of_int (TCPAddr.Port (LocalAddr srv) mod 256)]) 6]\<rparr>)"
    unfolding Req_dial_success [where DialTCP = DialTCP, OF assms(2) d assms(7)]
    by (simp add: uint_Uint16 PutUint16_word_of_int copy_4 [OF l])
  have r: "RunCalled \<in> set (io (runTCPConn input wcap c DialTCP ds))"
    unfolding runTCPConn_relay [OF assms(1) q] by simp
  show ?thesis
    using r l port_bytes [OF assms(5,6)] by (simp add: q)
qed

theorem connect_success_reply_witness:
  "fst (Req dial_ok \<lparr>conf = example_conf, clientR = example_request, clientW = None,
                      server = None, io = example_auth_io\<rparr>)
   \<and> sent (io (snd (Req dial_ok \<lparr>conf = example_conf, clientR = example_request, clientW = None,
                                  server = None, io = example_auth_io\<rparr>))) =
       [5, 2, 1, 0] @ [5, 0, 0, 1] @ [10, 0, 0, 1] @ [156, 64]
   \<and> uint (156 :: byte) * 256 + uint (64 :: byte) = 40000
   \<and> RunCalled \<in> set (io (runTCPConn (example_handshake @ example_request) None example_conf
                           dial_ok [ServerToClient]))"
proof -
  have a: "Auth (NewTCPConn ((example_handshake @ example_request)) None example_conf) =
     (True, \<lparr>conf = example_conf, clientR = example_request, clientW = None, server = None,
             io = example_auth_io\<rparr>)"
    using example_Auth [of example_request] by simp
  show ?thesis
    using connect_success_reply [where DialTCP = dial_ok
        and srv = "SrvConn \<lparr>IP = [10, 0, 0, 1], TCPAddr.Port = 40000\<rparr>"
        and ds = "[ServerToClient]" and rest = "[]"
        and ?a0.0 = 127 and ?a1.0 = 0 and ?a2.0 = 0 and ?a3.0 = 1 and ?p0.0 = 0 and ?p1.0 = 80,
        OF a]
    by (simp add: example_request_def dial_ok_def To4_def accepted_def sent_example_auth_io)
qed

text \<open>
  C1. The session of the example with a dialer that fails: after the dial error the
  only \<^verbatim>\<open>Write\<close> of \<^verbatim>\<open>Req\<close> is that of the four header bytes 05 01 00 01 (line 238
  writes \<^verbatim>\<open>res\<close> alone); no bound address and port follow, the session closes the client
  connection and never enters \<^verbatim>\<open>Run\<close>. The client has received 05 02, 01 00 and
  05 01 00 01.
\<close>

theorem dial_failure_reply_is_four_bytes:
  "io (runTCPConn (example_handshake @ example_request) None example_conf dial_refused []) =
     example_auth_io @
     [ClientRead 4 [5, 1, 0, 1], ClientRead 6 [127, 0, 0, 1, 0, 80],
      Dial \<lparr>IP = [127, 0, 0, 1], TCPAddr.Port = 80\<rparr> None,
      ClientWrite [5, 1, 0, 1] 4, ClientClose]
   \<and> sent (io (runTCPConn (example_handshake @ example_request) None example_conf
                 dial_refused [])) =
     [5, 2, 1, 0, 5, 1, 0, 1]"
proof -
  have a: "Auth (NewTCPConn ((example_handshake @ example_request)) None example_conf) =
     (True, \<lparr>conf = example_conf, clientR = example_request, clientW = None, server = None,
             io = example_auth_io\<rparr>)"
    using example_Auth [of example_request] by simp
  have r: "io (runTCPConn (example_handshake @ example_request) None example_conf dial_refused []) =
     example_auth_io @
     [ClientRead 4 [5, 1, 0, 1], ClientRead 6 [127, 0, 0, 1, 0, 80],
      Dial \<lparr>IP = [127, 0, 0, 1], TCPAddr.Port = 80\<rparr> None,
      ClientWrite [5, 1, 0, 1] 4, ClientClose]"
    by (simp add: runTCPConn_def a example_Req_refused Let_def Close_io)
  show ?thesis unfolding r by (simp add: sent_example_auth_io)
qed

text \<open>
  C9. In every session, if \<^verbatim>\<open>Run\<close> is entered then \<^verbatim>\<open>Auth\<close> has returned true, \<^verbatim>\<open>Req\<close>
  has returned true on the state \<^verbatim>\<open>Auth\<close> left, and the destination connection
  \<^verbatim>\<open>tcp.server\<close> is set in the state on which \<^verbatim>\<open>Run\<close> starts.
\<close>

theorem relay_only_after_auth_and_req:
  assumes "RunCalled \<in> set (io (runTCPConn input wcap c DialTCP ds))"
  shows "fst (Auth (NewTCPConn input wcap c))
       \<and> fst (Req DialTCP (snd (Auth (NewTCPConn input wcap c))))
       \<and> server (snd (Req DialTCP (snd (Auth (NewTCPConn input wcap c))))) \<noteq> None"
proof -
  obtain a tcp1 where a: "Auth (NewTCPConn input wcap c) = (a, tcp1)"
    by (cases "Auth (NewTCPConn input wcap c)")
  obtain q tcp2 where q: "Req DialTCP tcp1 = (q, tcp2)"
    by (cases "Req DialTCP tcp1")
  have o1: "other_events (io tcp1) = []"
    using Auth_new_other [of input wcap c] a by simp
  have o2: "other_events (io tcp2) = []"
    using Req_other [of DialTCP tcp1] q o1 by simp
  have "a"
  proof (rule ccontr)
    assume "\<not> a"
    then have "io (runTCPConn input wcap c DialTCP ds) =
               io tcp1 @ (if server tcp1 \<noteq> None then [ServerClose] else []) @ [ClientClose]"
      by (simp add: runTCPConn_def a Close_io)
    then show False using assms other_events_empty(1) [OF o1] by (simp split: if_splits)
  qed
  moreover have "q"
  proof (rule ccontr)
    assume "\<not> q"
    then have "io (runTCPConn input wcap c DialTCP ds) =
               io tcp2 @ (if server tcp2 \<noteq> None then [ServerClose] else []) @ [ClientClose]"
      using \<open>a\<close> by (simp add: runTCPConn_def a q Close_io)
    then show False using assms other_events_empty(1) [OF o2] by (simp split: if_splits)
  qed
  moreover have "server tcp2 \<noteq> None"
    using Req_server [of DialTCP tcp1] q \<open>q\<close> by simp
  ultimately show ?thesis by (simp add: a q)
qed

theorem relay_only_after_auth_and_req_witness:
  "RunCalled \<in> set (io (runTCPConn (example_handshake @ example_request) None example_conf
                         dial_ok [ServerToClient]))
   \<and> fst (Auth (NewTCPConn (example_handshake @ example_request) None example_conf))
   \<and> fst (Req dial_ok (snd (Auth (NewTCPConn (example_handshake @ example_request) None
                                     example_conf))))
   \<and> server (snd (Req dial_ok (snd (Auth (NewTCPConn (example_handshake @ example_request) None
                                            example_conf))))) =
       Some (SrvConn \<lparr>IP = [10, 0, 0, 1], TCPAddr.Port = 40000\<rparr>)"
proof -
  have a: "Auth (NewTCPConn ((example_handshake @ example_request)) None example_conf) =
     (True, \<lparr>conf = example_conf, clientR = example_request, clientW = None, server = None,
             io = example_auth_io\<rparr>)"
    using example_Auth [of example_request] by simp
  have h: "RunCalled \<in> set (io (runTCPConn (example_handshake @ example_request) None
                                 example_conf dial_ok [ServerToClient]))"
    unfolding runTCPConn_relay [OF a example_Req_ok] by simp
  show ?thesis
    using h relay_only_after_auth_and_req [OF h] by (simp add: a example_Req_ok)
qed




end
